theory Spec2Isabelle
  imports Main
begin

section \<open>JavaScript values of a parsed JSON request body\<close>

text \<open>
  The fields of \<open>req.body\<close> after \<open>express.json()\<close>. \<open>JUndefined\<close> is a field the
  body does not have; \<open>JNum\<close> is a number with an integral value (\<open>-0\<close> is \<open>JNum 0\<close>);
  \<open>JOther\<close> stands for every other value a JSON body can hold (a number with a
  fractional part or too large for a double's finite range, an array, an object), all of
  which JavaScript treats as true in a condition.
\<close>

datatype jsval = JUndefined | JNull | JBool bool | JNum int | JStr string | JOther

fun truthy :: "jsval \<Rightarrow> bool" where
  "truthy JUndefined = False"
| "truthy JNull = False"
| "truthy (JBool b) = b"
| "truthy (JNum n) = (n \<noteq> 0)"
| "truthy (JStr s) = (s \<noteq> [])"
| "truthy JOther = True"

text \<open>The destructured request body of \<open>POST /api/user/findOrCreate\<close> (server.js, 325-337).\<close>

record payload =
  id_v :: jsval
  is_bot :: jsval
  first_name :: jsval
  last_name :: jsval
  username :: jsval
  language_code :: jsval
  is_premium :: jsval
  added_to_attachment_menu :: jsval
  can_join_groups :: jsval
  can_read_all_group_messages :: jsval
  supports_inline_queries :: jsval

section \<open>The users table\<close>

text \<open>
  One row of \<open>users\<close>, column by column as \<open>CREATE TABLE users\<close> lists them
  (server.js, 55-70). \<open>None\<close> is SQL NULL; timestamps are points of the database clock.
\<close>

record user_row =
  col_id :: int
  col_username :: "string option"
  col_first_name :: "string option"
  col_last_name :: "string option"
  col_language_code :: "string option"
  col_is_premium :: "bool option"
  col_is_bot :: "bool option"
  col_added_to_attachment_menu :: "bool option"
  col_can_join_groups :: "bool option"
  col_can_read_all_group_messages :: "bool option"
  col_supports_inline_queries :: "bool option"
  col_preferred_language :: "string option"
  col_created_at :: nat
  col_updated_at :: nat

text \<open>The eleven statement parameters \<open>$1 .. $11\<close> as SQL values.\<close>

record user_params =
  p_id :: int
  p_is_bot :: "bool option"
  p_first_name :: "string option"
  p_last_name :: "string option"
  p_username :: "string option"
  p_language_code :: "string option"
  p_is_premium :: "bool option"
  p_added_to_attachment_menu :: "bool option"
  p_can_join_groups :: "bool option"
  p_can_read_all_group_messages :: "bool option"
  p_supports_inline_queries :: "bool option"

text \<open>A thrown error, as far as the handlers read it: \<open>error.code\<close> and \<open>error.message\<close>.\<close>

record js_error =
  code :: "string option"
  message :: string

text \<open>
  The PostgreSQL server and its driver are not code of this repository. How they read a
  JavaScript value as a value of a column type (or refuse it), and which column
  constraints other than the primary key the table in effect carries (server.js and
  migration 0001 declare different ones), are parameters of the model.
  \<open>int8_in\<close> reads the primary key, which is never NULL.
\<close>

record pg_driver =
  int8_in :: "jsval \<Rightarrow> js_error + int"
  bool_in :: "jsval \<Rightarrow> js_error + bool option"
  text_in :: "jsval \<Rightarrow> js_error + string option"
  check_cols :: "user_params \<Rightarrow> js_error option"

text \<open>The stored state: the rows of \<open>users\<close>, or no such table.\<close>

record db =
  table :: "user_row list option"

text \<open>
  What one call of the handler meets outside itself: \<open>process.env.NODE_ENV\<close>, the
  database clock when the writing statement runs, and for each of its two \<open>db.query\<close>
  calls a failure of the connection, if any.
\<close>

record env =
  node_env :: "string option"
  now :: nat
  select_fault :: "js_error option"
  write_fault :: "js_error option"

definition undefined_table :: js_error where
  \<open>undefined_table =
     \<lparr>code = Some ''42P01'', message = ''relation "users" does not exist''\<rparr>\<close>

definition unique_violation :: js_error where
  \<open>unique_violation =
     \<lparr>code = Some ''23505'',
      message = ''duplicate key value violates unique constraint "users_pkey"''\<rparr>\<close>

definition and_then :: "'e + 'a \<Rightarrow> ('a \<Rightarrow> 'e + 'b) \<Rightarrow> 'e + 'b" where
  "and_then r f = (case r of Inl e \<Rightarrow> Inl e | Inr x \<Rightarrow> f x)"

text \<open>Binding the parameter array, in the order the handler passes it (server.js, 371-375).\<close>

definition bind_user :: "pg_driver \<Rightarrow> payload \<Rightarrow> js_error + user_params" where
  "bind_user pg b =
     and_then (int8_in pg (id_v b)) (\<lambda>v1.
     and_then (bool_in pg (is_bot b)) (\<lambda>v2.
     and_then (text_in pg (first_name b)) (\<lambda>v3.
     and_then (text_in pg (last_name b)) (\<lambda>v4.
     and_then (text_in pg (username b)) (\<lambda>v5.
     and_then (text_in pg (language_code b)) (\<lambda>v6.
     and_then (bool_in pg (is_premium b)) (\<lambda>v7.
     and_then (bool_in pg (added_to_attachment_menu b)) (\<lambda>v8.
     and_then (bool_in pg (can_join_groups b)) (\<lambda>v9.
     and_then (bool_in pg (can_read_all_group_messages b)) (\<lambda>v10.
     and_then (bool_in pg (supports_inline_queries b)) (\<lambda>v11.
       Inr \<lparr>p_id = v1, p_is_bot = v2, p_first_name = v3, p_last_name = v4,
            p_username = v5, p_language_code = v6, p_is_premium = v7,
            p_added_to_attachment_menu = v8, p_can_join_groups = v9,
            p_can_read_all_group_messages = v10,
            p_supports_inline_queries = v11\<rparr>)))))))))))"

text \<open>\<open>SELECT * FROM users WHERE id = $1\<close>\<close>

definition select_user :: "pg_driver \<Rightarrow> env \<Rightarrow> db \<Rightarrow> jsval \<Rightarrow> js_error + user_row list" where
  "select_user pg e d v =
     (case select_fault e of
        Some x \<Rightarrow> Inl x
      | None \<Rightarrow>
          (case table d of
             None \<Rightarrow> Inl undefined_table
           | Some rows \<Rightarrow>
               and_then (int8_in pg v) (\<lambda>k. Inr (filter (\<lambda>r. col_id r = k) rows))))"

text \<open>The \<open>SET\<close> list of the \<open>UPDATE\<close> (server.js, 355-366).\<close>

definition set_cols :: "user_params \<Rightarrow> nat \<Rightarrow> user_row \<Rightarrow> user_row" where
  "set_cols ps t r =
     r\<lparr>col_is_bot := p_is_bot ps,
       col_first_name := p_first_name ps,
       col_last_name := p_last_name ps,
       col_username := p_username ps,
       col_language_code := p_language_code ps,
       col_is_premium := p_is_premium ps,
       col_added_to_attachment_menu := p_added_to_attachment_menu ps,
       col_can_join_groups := p_can_join_groups ps,
       col_can_read_all_group_messages := p_can_read_all_group_messages ps,
       col_supports_inline_queries := p_supports_inline_queries ps,
       col_updated_at := t\<rparr>"

text \<open>
  \<open>UPDATE users SET ... WHERE id = $1 RETURNING *\<close>: the rows returned and the new
  state. A constraint is checked only when a row is written.
\<close>

definition update_user ::
  "pg_driver \<Rightarrow> env \<Rightarrow> db \<Rightarrow> payload \<Rightarrow> js_error + (user_row list \<times> db)" where
  "update_user pg e d b =
     (case write_fault e of
        Some x \<Rightarrow> Inl x
      | None \<Rightarrow>
          (case table d of
             None \<Rightarrow> Inl undefined_table
           | Some rows \<Rightarrow>
               and_then (bind_user pg b) (\<lambda>ps.
                 (case (if list_ex (\<lambda>r. col_id r = p_id ps) rows then check_cols pg ps
                        else None) of
                    Some x \<Rightarrow> Inl x
                  | None \<Rightarrow>
                      (let rows' = map (\<lambda>r. if col_id r = p_id ps
                                               then set_cols ps (now e) r else r) rows
                       in Inr (filter (\<lambda>r. col_id r = p_id ps) rows',
                               d\<lparr>table := Some rows'\<rparr>))))))"

text \<open>
  The row an \<open>INSERT\<close> of the eleven listed columns creates: \<open>preferred_language\<close>,
  \<open>created_at\<close> and \<open>updated_at\<close> take their column defaults.
\<close>

definition new_row :: "user_params \<Rightarrow> nat \<Rightarrow> user_row" where
  "new_row ps t =
     \<lparr>col_id = p_id ps,
      col_username = p_username ps,
      col_first_name = p_first_name ps,
      col_last_name = p_last_name ps,
      col_language_code = p_language_code ps,
      col_is_premium = p_is_premium ps,
      col_is_bot = p_is_bot ps,
      col_added_to_attachment_menu = p_added_to_attachment_menu ps,
      col_can_join_groups = p_can_join_groups ps,
      col_can_read_all_group_messages = p_can_read_all_group_messages ps,
      col_supports_inline_queries = p_supports_inline_queries ps,
      col_preferred_language = Some ''en'',
      col_created_at = t,
      col_updated_at = t\<rparr>"

text \<open>\<open>INSERT INTO users (...) VALUES ($1, ..., $11) RETURNING *\<close>, \<open>id\<close> the primary key.\<close>

definition insert_user ::
  "pg_driver \<Rightarrow> env \<Rightarrow> db \<Rightarrow> payload \<Rightarrow> js_error + (user_row list \<times> db)" where
  "insert_user pg e d b =
     (case write_fault e of
        Some x \<Rightarrow> Inl x
      | None \<Rightarrow>
          (case table d of
             None \<Rightarrow> Inl undefined_table
           | Some rows \<Rightarrow>
               and_then (bind_user pg b) (\<lambda>ps.
                 (case check_cols pg ps of
                    Some x \<Rightarrow> Inl x
                  | None \<Rightarrow>
                      if list_ex (\<lambda>r. col_id r = p_id ps) rows then Inl unique_violation
                      else Inr ([new_row ps (now e)],
                                d\<lparr>table := Some (rows @ [new_row ps (now e)])\<rparr>)))))"

section \<open>Responses\<close>

text \<open>
  The JSON object of an error response; \<open>None\<close> is a key the object does not have
  (\<open>JSON.stringify\<close> leaves out a key whose value is \<open>undefined\<close>).
  \<open>message_field\<close> is the key \<open>message\<close>.
\<close>

record err_body =
  error :: string
  message_field :: "string option"
  details :: "string option"
  supportedLanguages :: "string list option"

text \<open>A response: \<open>res.status(...).json(...)\<close>.\<close>

datatype 'a json_body = Data 'a | Failure err_body

record 'a response =
  status :: nat
  body :: "'a json_body"

section \<open>POST /api/user/findOrCreate\<close>

text \<open>The \<open>catch\<close> branch (server.js, 399-434).\<close>

definition catch_branch :: "string option \<Rightarrow> js_error \<Rightarrow> 'a response" where
  "catch_branch mode x =
     (let d = (if mode = Some ''development'' then Some (message x) else None) in
      if code x = Some ''ECONNREFUSED'' \<or> code x = Some ''ENOTFOUND'' then
        \<lparr>status = 503,
         body = Failure \<lparr>error = ''Database connection failed'',
                         message_field = Some ''Unable to connect to the database'',
                         details = d, supportedLanguages = None\<rparr>\<rparr>
      else if code x = Some ''42P01'' then
        \<lparr>status = 503,
         body = Failure \<lparr>error = ''Database table not found'',
                         message_field = Some
                           ''The users table does not exist. Please check database initialization.'',
                         details = d, supportedLanguages = None\<rparr>\<rparr>
      else
        \<lparr>status = 500,
         body = Failure \<lparr>error = ''Internal server error'',
                         message_field = Some ''Failed to process user data'',
                         details = d, supportedLanguages = None\<rparr>\<rparr>)"

text \<open>\<open>rows[0]\<close>, \<open>undefined\<close> on an empty result.\<close>

definition first_row :: "user_row list \<Rightarrow> user_row option" where
  "first_row rows = (case rows of [] \<Rightarrow> None | r # _ \<Rightarrow> Some r)"

text \<open>
  The handler suspends at each \<open>await db.query\<close>. Its first part validates and runs the
  \<open>SELECT\<close>; \<open>pending\<close> is what it knows when the second part starts.
\<close>

datatype pending =
  Responded "user_row option response"
| Thrown js_error
| Existing
| Absent

definition findOrCreate_check :: "pg_driver \<Rightarrow> env \<Rightarrow> db \<Rightarrow> payload \<Rightarrow> pending" where
  "findOrCreate_check pg e d b =
     (if \<not> truthy (id_v b) \<or> \<not> truthy (first_name b) then
        Responded
          \<lparr>status = 400,
           body = Failure \<lparr>error = ''Missing required fields: id and first_name are required'',
                           message_field = None, details = None,
                           supportedLanguages = None\<rparr>\<rparr>
      else
        (case select_user pg e d (id_v b) of
           Inl x \<Rightarrow> Thrown x
         | Inr rows \<Rightarrow> if length rows > 0 then Existing else Absent))"

definition findOrCreate_write ::
  "pg_driver \<Rightarrow> env \<Rightarrow> db \<Rightarrow> payload \<Rightarrow> pending \<Rightarrow> user_row option response \<times> db" where
  "findOrCreate_write pg e d b p =
     (case p of
        Responded r \<Rightarrow> (r, d)
      | Thrown x \<Rightarrow> (catch_branch (node_env e) x, d)
      | Existing \<Rightarrow>
          (case update_user pg e d b of
             Inl x \<Rightarrow> (catch_branch (node_env e) x, d)
           | Inr (rows, d') \<Rightarrow> (\<lparr>status = 200, body = Data (first_row rows)\<rparr>, d'))
      | Absent \<Rightarrow>
          (case insert_user pg e d b of
             Inl x \<Rightarrow> (catch_branch (node_env e) x, d)
           | Inr (rows, d') \<Rightarrow> (\<lparr>status = 201, body = Data (first_row rows)\<rparr>, d')))"

text \<open>One call handled with no other request in between.\<close>

definition findOrCreate ::
  "pg_driver \<Rightarrow> env \<Rightarrow> db \<Rightarrow> payload \<Rightarrow> user_row option response \<times> db" where
  "findOrCreate pg e d b = findOrCreate_write pg e d b (findOrCreate_check pg e d b)"

text \<open>
  Two calls for the same payload whose handling overlaps: both run their \<open>SELECT\<close>
  before either writes. Each statement is atomic; the handlers interleave at their
  \<open>await\<close>s.
\<close>

definition overlapped ::
  "pg_driver \<Rightarrow> env \<Rightarrow> env \<Rightarrow> db \<Rightarrow> payload \<Rightarrow>
     user_row option response \<times> user_row option response \<times> db" where
  "overlapped pg e1 e2 d b =
     (let p1 = findOrCreate_check pg e1 d b;
          p2 = findOrCreate_check pg e2 d b;
          (r1, d1) = findOrCreate_write pg e1 d b p1;
          (r2, d2) = findOrCreate_write pg e2 d1 b p2
      in (r1, r2, d2))"


section \<open>GET /api/translations/:lang\<close>

definition supported :: "string list" where
  "supported = [''en'', ''ar'', ''fa'', ''ru'', ''de'', ''zh'']"

text \<open>The test \<open>/^[a-z]{2}$/\<close>.\<close>

definition lower_letter :: "char \<Rightarrow> bool" where
  "lower_letter c = (c \<in> set ''abcdefghijklmnopqrstuvwxyz'')"

definition two_letters :: "string \<Rightarrow> bool" where
  "two_letters s = (case s of [a, b] \<Rightarrow> lower_letter a \<and> lower_letter b | _ \<Rightarrow> False)"

text \<open>
  The file of a language, below the directory \<open>path.join\<close> reaches from
  \<open>__dirname\<close> by three \<open>..\<close> steps.
\<close>

definition filePath :: "string \<Rightarrow> string" where
  "filePath lang = ''locales/'' @ lang @ ''.json''"

text \<open>
  The handler (server.js, 446-499). \<open>parse\<close> is \<open>JSON.parse\<close> (\<open>None\<close> where it
  throws); \<open>fs\<close> is the file system when the request is handled (\<open>None\<close> where
  \<open>fs.readFile\<close> reports an error). The handler keeps nothing between requests.
\<close>

definition get_translations ::
  "(string \<Rightarrow> 'j option) \<Rightarrow> (string \<Rightarrow> string option) \<Rightarrow> string \<Rightarrow> 'j response" where
  "get_translations parse fs lang =
     (if lang = [] \<or> \<not> two_letters lang then
        \<lparr>status = 400,
         body = Failure \<lparr>error = ''Invalid language code'',
                         message_field = Some ''Language code must be a 2-letter ISO code'',
                         details = None, supportedLanguages = None\<rparr>\<rparr>
      else if lang \<notin> set supported then
        \<lparr>status = 404,
         body = Failure \<lparr>error = ''Language not supported'', message_field = None,
                         details = None, supportedLanguages = Some supported\<rparr>\<rparr>
      else
        (case fs (filePath lang) of
           None \<Rightarrow>
             \<lparr>status = 500,
              body = Failure \<lparr>error = ''Translation service error'',
                              message_field = Some ''Failed to load translation file'',
                              details = None, supportedLanguages = None\<rparr>\<rparr>
         | Some data \<Rightarrow>
             (case parse data of
                Some t \<Rightarrow> \<lparr>status = 200, body = Data t\<rparr>
              | None \<Rightarrow>
                  \<lparr>status = 500,
                   body = Failure \<lparr>error = ''Translation service error'',
                                   message_field = Some ''Invalid translation file format'',
                                   details = None, supportedLanguages = None\<rparr>\<rparr>)))"

text \<open>
  The server handling translation requests one after the other, each with the file system
  as it is when the request arrives. No variable of the module outlives a request.
\<close>

definition serve ::
  "(string \<Rightarrow> 'j option) \<Rightarrow> ((string \<Rightarrow> string option) \<times> string) list \<Rightarrow> 'j response list" where
  "serve parse reqs = map (\<lambda>(fs, lang). get_translations parse fs lang) reqs"

section \<open>The bot's /start handler\<close>

text \<open>
  What the backend answers to the calls one \<open>/start\<close> event makes, in the order the
  handler makes them: \<open>findOrCreateUser\<close> (an error, or the record, of which the handler
  reads \<open>preferred_language\<close> only), \<open>getTranslations\<close> of the preferred language, and
  \<open>getTranslations('en')\<close> inside \<open>handleBotError\<close>. A bundle maps a key to its text.
  \<open>tg\<close> is \<open>ctx.reply\<close>: the error Telegram refuses a text with, if it does.
  \<open>axios\<close> rejects on a timeout, a transport error and a status outside 2xx alike.
\<close>

record gateway =
  user_result :: "js_error + string option"
  bundle_result :: "string \<Rightarrow> js_error + (string \<Rightarrow> string option)"
  en_result :: "js_error + (string \<Rightarrow> string option)"

text \<open>What the handler did: the texts delivered to the user, and the error it rejected with.\<close>

record outcome =
  sent :: "string list"
  raised :: "js_error option"

definition fallback_text :: string where
  "fallback_text = ''An error occurred. Please try again later.''"

text \<open>\<open>handleBotError\<close> (bot.js, 114-126); the error it is given is only logged.\<close>

definition handleBotError :: "(string option \<Rightarrow> js_error option) \<Rightarrow> gateway \<Rightarrow> outcome" where
  "handleBotError tg gw =
     (let last_resort =
            (case tg (Some fallback_text) of
               Some x \<Rightarrow> \<lparr>sent = [], raised = Some x\<rparr>
             | None \<Rightarrow> \<lparr>sent = [fallback_text], raised = None\<rparr>)
      in case en_result gw of
           Inl x \<Rightarrow> last_resort
         | Inr t \<Rightarrow>
             (let errorMessage =
                    (case t ''error_generic'' of
                       None \<Rightarrow> fallback_text
                     | Some s \<Rightarrow> if s \<noteq> [] then s else fallback_text)
              in case tg (Some errorMessage) of
                   Some x \<Rightarrow> last_resort
                 | None \<Rightarrow> \<lparr>sent = [errorMessage], raised = None\<rparr>))"

text \<open>
  The \<open>/start\<close> handler (bot.js, 134-158). A bundle without \<open>welcome_message\<close>
  gives \<open>ctx.reply\<close> the value \<open>undefined\<close>, which goes out as the text
  \<open>undefined\<close>.
\<close>

definition bot_start :: "(string option \<Rightarrow> js_error option) \<Rightarrow> gateway \<Rightarrow> outcome" where
  "bot_start tg gw =
     (case user_result gw of
        Inl x \<Rightarrow> handleBotError tg gw
      | Inr pref \<Rightarrow>
          (let preferredLanguage =
                 (case pref of None \<Rightarrow> ''en'' | Some s \<Rightarrow> if s \<noteq> [] then s else ''en'')
           in case bundle_result gw preferredLanguage of
                Inl x \<Rightarrow> handleBotError tg gw
              | Inr t \<Rightarrow>
                  (let text = (case t ''welcome_message'' of
                                 None \<Rightarrow> ''undefined''
                               | Some s \<Rightarrow> s)
                   in case tg (Some text) of
                        Some x \<Rightarrow> handleBotError tg gw
                      | None \<Rightarrow> \<lparr>sent = [text], raised = None\<rparr>)))"

section \<open>Vocabulary of the statements\<close>

text \<open>
  A valid payload in the specification's words: \<open>id\<close> present and a positive integer,
  \<open>firstName\<close> present and non-empty.
\<close>

definition spec_valid_payload :: "payload \<Rightarrow> bool" where
  "spec_valid_payload b =
     ((case id_v b of JNum n \<Rightarrow> 0 < n | _ \<Rightarrow> False) \<and>
      (case first_name b of JStr s \<Rightarrow> s \<noteq> [] | _ \<Rightarrow> False))"

text \<open>Neither query of the call meets a connection failure.\<close>

definition healthy :: "env \<Rightarrow> bool" where
  "healthy e = (select_fault e = None \<and> write_fault e = None)"

text \<open>The database takes every field of the payload: each converts, no constraint objects.\<close>

definition accepted :: "pg_driver \<Rightarrow> payload \<Rightarrow> bool" where
  "accepted pg b = (case bind_user pg b of Inl x \<Rightarrow> False | Inr ps \<Rightarrow> check_cols pg ps = None)"




text \<open>The response to a request the validation refuses (server.js, 341-343).\<close>

definition bad_request :: "user_row option response" where
  "bad_request =
     \<lparr>status = 400,
      body = Failure \<lparr>error = ''Missing required fields: id and first_name are required'',
                      message_field = None, details = None, supportedLanguages = None\<rparr>\<rparr>"

text \<open>
  Every error the storage raises given another text: \<open>f\<close> chooses the new
  \<open>message\<close> of an error, in the driver's conversions and checks and in the
  connection failures of a call.
\<close>

definition retext :: "(js_error \<Rightarrow> string) \<Rightarrow> js_error \<Rightarrow> js_error" where
  "retext f x = x\<lparr>message := f x\<rparr>"

definition retext_result :: "(js_error \<Rightarrow> string) \<Rightarrow> js_error + 'a \<Rightarrow> js_error + 'a" where
  "retext_result f r = (case r of Inl x \<Rightarrow> Inl (retext f x) | Inr v \<Rightarrow> Inr v)"

definition retext_driver :: "(js_error \<Rightarrow> string) \<Rightarrow> pg_driver \<Rightarrow> pg_driver" where
  "retext_driver f pg =
     \<lparr>int8_in = (\<lambda>v. retext_result f (int8_in pg v)),
      bool_in = (\<lambda>v. retext_result f (bool_in pg v)),
      text_in = (\<lambda>v. retext_result f (text_in pg v)),
      check_cols = (\<lambda>ps. map_option (retext f) (check_cols pg ps))\<rparr>"

definition retext_env :: "(js_error \<Rightarrow> string) \<Rightarrow> env \<Rightarrow> env" where
  "retext_env f e =
     e\<lparr>select_fault := map_option (retext f) (select_fault e),
       write_fault := map_option (retext f) (write_fault e)\<rparr>"

text \<open>Two results that agree but for the texts of their errors.\<close>

definition alike :: "js_error + 'a \<Rightarrow> js_error + 'a \<Rightarrow> bool" where
  "alike r1 r2 =
     (case r1 of
        Inl x \<Rightarrow> (case r2 of Inl y \<Rightarrow> code x = code y | Inr b \<Rightarrow> False)
      | Inr a \<Rightarrow> (case r2 of Inl y \<Rightarrow> False | Inr b \<Rightarrow> a = b))"

section \<open>Concrete inputs\<close>

text \<open>
  A driver for the concrete runs below. It answers as PostgreSQL and its driver do on
  the values the runs give it: an integer of magnitude below \<open>2^53\<close> as an id (sent
  digit for digit), the id \<open>2^63\<close> (refused, out of the range of \<open>bigint\<close>), a
  boolean, a string within the limit of its column, and \<open>null\<close> or
  \<open>undefined\<close> for NULL. For any other value (a numeric string as an id, an integer
  between \<open>2^53\<close> and \<open>2^63\<close>, which the driver sends rounded) it is a stand-in
  only. Its constraints are \<open>first_name NOT NULL\<close> and the ten characters of
  \<open>language_code\<close>, which both table definitions carry.
\<close>

definition sample_pg :: pg_driver where
  "sample_pg =
     \<lparr>int8_in = (\<lambda>v. case v of
          JNum n \<Rightarrow>
            if - (2 ^ 63) \<le> n \<and> n < 2 ^ 63 then Inr n
            else Inl \<lparr>code = Some ''22003'', message = ''value is out of range for type bigint''\<rparr>
        | _ \<Rightarrow> Inl \<lparr>code = Some ''22P02'', message = ''invalid input syntax for type bigint''\<rparr>),
      bool_in = (\<lambda>v. case v of
          JUndefined \<Rightarrow> Inr None
        | JNull \<Rightarrow> Inr None
        | JBool b \<Rightarrow> Inr (Some b)
        | _ \<Rightarrow> Inl \<lparr>code = Some ''22P02'', message = ''invalid input syntax for type boolean''\<rparr>),
      text_in = (\<lambda>v. case v of
          JUndefined \<Rightarrow> Inr None
        | JNull \<Rightarrow> Inr None
        | JStr s \<Rightarrow> Inr (Some s)
        | _ \<Rightarrow> Inl \<lparr>code = Some ''22P02'', message = ''invalid input syntax''\<rparr>),
      check_cols = (\<lambda>ps. case p_first_name ps of
          None \<Rightarrow> Some \<lparr>code = Some ''23502'',
                        message = ''null value in column first_name violates not-null constraint''\<rparr>
        | Some s \<Rightarrow>
            (case p_language_code ps of
               None \<Rightarrow> None
             | Some l \<Rightarrow>
                 if length l > 10
                 then Some \<lparr>code = Some ''22001'',
                            message = ''value too long for type character varying(10)''\<rparr>
                 else None))\<rparr>"

text \<open>A call at time \<open>t\<close>, in production, that meets no failure.\<close>

definition quiet :: "nat \<Rightarrow> env" where
  "quiet t = \<lparr>node_env = Some ''production'', now = t, select_fault = None, write_fault = None\<rparr>"

text \<open>A refused connection, and a call at time 7 that meets it at its first query.\<close>

definition refused :: "string \<Rightarrow> js_error" where
  "refused m = \<lparr>code = Some ''ECONNREFUSED'', message = m\<rparr>"

definition down :: "string \<Rightarrow> js_error \<Rightarrow> env" where
  "down mode x = \<lparr>node_env = Some mode, now = 7, select_fault = Some x, write_fault = None\<rparr>"

text \<open>The body \<open>{id: n, is_bot: false, first_name: s, language_code: "en"}\<close>.\<close>

definition telegram_user :: "int \<Rightarrow> string \<Rightarrow> payload" where
  "telegram_user n s =
     \<lparr>id_v = JNum n, is_bot = JBool False, first_name = JStr s, last_name = JUndefined,
      username = JUndefined, language_code = JStr ''en'', is_premium = JUndefined,
      added_to_attachment_menu = JUndefined, can_join_groups = JUndefined,
      can_read_all_group_messages = JUndefined, supports_inline_queries = JUndefined\<rparr>"

text \<open>The body \<open>{}\<close>.\<close>

definition empty_body :: payload where
  "empty_body =
     \<lparr>id_v = JUndefined, is_bot = JUndefined, first_name = JUndefined, last_name = JUndefined,
      username = JUndefined, language_code = JUndefined, is_premium = JUndefined,
      added_to_attachment_menu = JUndefined, can_join_groups = JUndefined,
      can_read_all_group_messages = JUndefined, supports_inline_queries = JUndefined\<rparr>"

text \<open>The table with no rows.\<close>

definition empty_db :: db where
  "empty_db = \<lparr>table = Some []\<rparr>"

text \<open>The row the body \<open>telegram_user 42 ''Ana''\<close> creates at time \<open>t\<close>.\<close>

definition stored_42 :: "nat \<Rightarrow> user_row" where
  "stored_42 t =
     \<lparr>col_id = 42, col_username = None, col_first_name = Some ''Ana'', col_last_name = None,
      col_language_code = Some ''en'', col_is_premium = None, col_is_bot = Some False,
      col_added_to_attachment_menu = None, col_can_join_groups = None,
      col_can_read_all_group_messages = None, col_supports_inline_queries = None,
      col_preferred_language = Some ''en'', col_created_at = t, col_updated_at = t\<rparr>"



text \<open>
  \<open>JSON.parse\<close> on the texts the concrete runs read: three flat objects, and a
  truncated text, on which it throws. The runs give it no other text.
\<close>

definition sample_parse :: "string \<Rightarrow> (string \<times> string) list option" where
  \<open>sample_parse s =
     (if s = ''{}'' then Some []
      else if s = ''{"hello":"Hi"}'' then Some [(''hello'', ''Hi'')]
      else if s = ''{"hello":"Hello"}'' then Some [(''hello'', ''Hello'')]
      else None)\<close>

text \<open>A locales directory with \<open>en.json\<close> of the given content and an empty \<open>de.json\<close>.\<close>

definition locales :: "string \<Rightarrow> string \<Rightarrow> string option" where
  "locales en p =
     (if p = ''locales/en.json'' then Some en
      else if p = ''locales/de.json'' then Some ''{}''
      else None)"

text \<open>A backend that refuses every connection.\<close>

definition gateway_down :: gateway where
  "gateway_down =
     \<lparr>user_result = Inl \<lparr>code = Some ''ECONNREFUSED'', message = ''connect ECONNREFUSED''\<rparr>,
      bundle_result = (\<lambda>lang. Inl \<lparr>code = Some ''ECONNREFUSED'', message = ''connect ECONNREFUSED''\<rparr>),
      en_result = Inl \<lparr>code = Some ''ECONNREFUSED'', message = ''connect ECONNREFUSED''\<rparr>\<rparr>"

text \<open>An English bundle with the two keys the bot reads.\<close>

definition en_bundle :: "string \<Rightarrow> string option" where
  "en_bundle key =
     (if key = ''welcome_message'' then Some ''Welcome to Giftunity!''
      else if key = ''error_generic'' then Some ''Something went wrong. Please try again.''
      else None)"

text \<open>A backend whose user endpoint answers 500 while its translations are served.\<close>

definition users_down :: gateway where
  "users_down =
     \<lparr>user_result = Inl \<lparr>code = Some ''ERR_BAD_RESPONSE'',
                          message = ''Request failed with status code 500''\<rparr>,
      bundle_result = (\<lambda>lang. Inr en_bundle),
      en_result = Inr en_bundle\<rparr>"

text \<open>Telegram delivering every text.\<close>

definition telegram_up :: "string option \<Rightarrow> js_error option" where
  "telegram_up text = None"

section \<open>Facts about the concrete inputs\<close>

lemma sample_bind:
  "bind_user sample_pg (telegram_user 42 s) =
     Inr \<lparr>p_id = 42, p_is_bot = Some False, p_first_name = Some s, p_last_name = None,
          p_username = None, p_language_code = Some ''en'', p_is_premium = None,
          p_added_to_attachment_menu = None, p_can_join_groups = None,
          p_can_read_all_group_messages = None, p_supports_inline_queries = None\<rparr>"
  by (simp add: bind_user_def sample_pg_def telegram_user_def and_then_def)

lemma sample_accepted: "accepted sample_pg (telegram_user 42 s)"
  by (simp add: accepted_def sample_bind) (simp add: sample_pg_def)

lemma sample_valid: "spec_valid_payload (telegram_user 42 ''Ana'')"
  by (simp add: spec_valid_payload_def telegram_user_def)

lemma quiet_healthy: "healthy (quiet t)"
  by (simp add: healthy_def quiet_def)

lemma sample_key: "int8_in sample_pg (id_v (telegram_user 42 s)) = Inr 42"
  by (simp add: sample_pg_def telegram_user_def)



section \<open>Validation\<close>

text \<open>
  C4, as the code has it. The handler answers 400 exactly when \<open>id\<close> or \<open>first_name\<close>
  is missing or falsy (\<open>undefined\<close>, \<open>null\<close>, \<open>false\<close>, \<open>0\<close>, the empty string); it
  does so whatever the driver, the environment and the stored state are, and leaves the
  stored state as it was. A body that passes this test reaches the database even when its
  id is not a positive integer.
\<close>

theorem findOrCreate_validation:
  "(\<not> truthy (id_v b) \<or> \<not> truthy (first_name b) \<longrightarrow>
      findOrCreate pg e d b = (bad_request, d)) \<and>
   ((status (fst (findOrCreate pg e d b)) = 400) =
      (\<not> truthy (id_v b) \<or> \<not> truthy (first_name b)))"
  by (auto simp add: findOrCreate_def findOrCreate_check_def findOrCreate_write_def
      bad_request_def catch_branch_def Let_def split: sum.splits prod.splits)

text \<open>The body \<open>{}\<close> is refused with 400 and nothing is written.\<close>

theorem findOrCreate_validation_witness:
  "\<not> truthy (id_v empty_body) \<and>
   findOrCreate sample_pg (quiet 7) empty_db empty_body = (bad_request, empty_db) \<and>
   status (fst (findOrCreate sample_pg (quiet 7) empty_db empty_body)) = 400"
  using findOrCreate_validation [of empty_body sample_pg "quiet 7" empty_db]
  by (simp add: empty_body_def bad_request_def)

text \<open>
  C4 as stated fails: the body \<open>{id: -5, is_bot: false, first_name: "Ana",
  language_code: "en"}\<close> has an id that is not a positive integer, yet it is answered
  201 and a row is stored.
\<close>

theorem findOrCreate_validation_counterexample:
  "\<not> spec_valid_payload (telegram_user (- 5) ''Ana'') \<and>
   status (fst (findOrCreate sample_pg (quiet 7) empty_db (telegram_user (- 5) ''Ana''))) = 201 \<and>
   table (snd (findOrCreate sample_pg (quiet 7) empty_db (telegram_user (- 5) ''Ana''))) \<noteq>
     table empty_db"
  by (simp add: spec_valid_payload_def findOrCreate_def findOrCreate_check_def
      findOrCreate_write_def select_user_def insert_user_def bind_user_def sample_pg_def
      telegram_user_def and_then_def quiet_def new_row_def empty_db_def)

section \<open>Translations\<close>

lemma supported_two_letters: "lang \<in> set supported \<Longrightarrow> two_letters lang \<and> lang \<noteq> []"
  by (auto simp add: supported_def two_letters_def lower_letter_def)

lemma filePath_inj: "filePath a = filePath b \<Longrightarrow> a = b"
  by (simp add: filePath_def)

lemma two_letters_shape: "two_letters lang = (length lang = 2 \<and> list_all lower_letter lang)"
  by (cases lang rule: list.exhaust; simp add: two_letters_def split: list.splits)

text \<open>
  C6. A code of two lower-case letters outside \<open>{en, ar, fa, ru, de, zh}\<close> is answered
  404 \<open>Language not supported\<close>, and the list of supported languages in the body is
  exactly that set; a code that is not two lower-case letters is answered 400
  \<open>Invalid language code\<close>. Neither answer depends on the files.
\<close>

theorem get_translations_unsupported:
  "(length lang = 2 \<and> list_all lower_letter lang \<and>
      lang \<notin> {''en'', ''ar'', ''fa'', ''ru'', ''de'', ''zh''} \<longrightarrow>
      status (get_translations parse fs lang) = 404 \<and>
      (\<exists>f l. body (get_translations parse fs lang) = Failure f \<and>
         error f = ''Language not supported'' \<and> supportedLanguages f = Some l \<and>
         set l = {''en'', ''ar'', ''fa'', ''ru'', ''de'', ''zh''})) \<and>
   (\<not> (length lang = 2 \<and> list_all lower_letter lang) \<longrightarrow>
      status (get_translations parse fs lang) = 400 \<and>
      (\<exists>f. body (get_translations parse fs lang) = Failure f \<and>
         error f = ''Invalid language code''))"
  unfolding get_translations_def two_letters_shape
  by (auto simp add: supported_def)

text \<open>\<open>fr\<close> is answered 404 with the six codes, \<open>EN\<close> is answered 400.\<close>

theorem get_translations_unsupported_witness:
  "status (get_translations sample_parse (locales ''{}'') ''fr'') = 404 \<and>
   (\<exists>f l. body (get_translations sample_parse (locales ''{}'') ''fr'') = Failure f \<and>
      supportedLanguages f = Some l \<and>
      set l = {''en'', ''ar'', ''fa'', ''ru'', ''de'', ''zh''}) \<and>
   status (get_translations sample_parse (locales ''{}'') ''EN'') = 400"
  using get_translations_unsupported [of "''fr''" sample_parse "locales ''{}''"]
    get_translations_unsupported [of "''EN''" sample_parse "locales ''{}''"]
  by (auto simp add: lower_letter_def)

text \<open>
  C9. When the file of a supported code does not parse, the request for that code is
  answered 500 \<open>Invalid translation file format\<close> (the handler returns, the exception of
  \<open>JSON.parse\<close> is caught), and the answer to every other code is what it would be
  with any other content, or no file, in that place.
\<close>

theorem get_translations_corrupt:
  assumes "lang \<in> set supported" and "fs (filePath lang) = Some data" and "parse data = None"
  shows "get_translations parse fs lang =
           \<lparr>status = 500,
            body = Failure \<lparr>error = ''Translation service error'',
                            message_field = Some ''Invalid translation file format'',
                            details = None, supportedLanguages = None\<rparr>\<rparr> \<and>
         (\<forall>other c. other \<noteq> lang \<longrightarrow>
            get_translations parse (fs(filePath lang := c)) other =
            get_translations parse fs other)"
proof -
  have "filePath other \<noteq> filePath lang" if "other \<noteq> lang" for other
    using that filePath_inj by blast
  then have isolated: "get_translations parse (fs(filePath lang := c)) other =
      get_translations parse fs other" if "other \<noteq> lang" for other c
    using that by (simp add: get_translations_def)
  from assms supported_two_letters [OF assms(1)]
  have "get_translations parse fs lang =
      \<lparr>status = 500,
       body = Failure \<lparr>error = ''Translation service error'',
                       message_field = Some ''Invalid translation file format'',
                       details = None, supportedLanguages = None\<rparr>\<rparr>"
    by (simp add: get_translations_def)
  with isolated show ?thesis by blast
qed

text \<open>
  With a truncated \<open>en.json\<close>, \<open>en\<close> is answered 500 and \<open>de\<close> is served as it is
  with a well-formed \<open>en.json\<close>.
\<close>

theorem get_translations_corrupt_witness:
  \<open>status (get_translations sample_parse (locales ''{"hello":'') ''en'') = 500 \<and>
   get_translations sample_parse (locales ''{"hello":'') ''de'' =
     \<lparr>status = 200, body = Data []\<rparr> \<and>
   get_translations sample_parse
     ((locales ''{"hello":'')(filePath ''en'' := Some ''{"hello":"Hi"}'')) ''de'' =
     \<lparr>status = 200, body = Data []\<rparr>\<close>
proof -
  have s: "''en'' \<in> set supported"
    by (simp add: supported_def)
  have f: \<open>locales ''{"hello":'' (filePath ''en'') = Some ''{"hello":''\<close>
    by (simp add: locales_def filePath_def)
  have p: \<open>sample_parse ''{"hello":'' = None\<close>
    by (simp add: sample_parse_def)
  have de: \<open>get_translations sample_parse (locales ''{"hello":'') ''de'' =
      \<lparr>status = 200, body = Data []\<rparr>\<close>
    by (simp add: get_translations_def supported_def two_letters_def lower_letter_def
        filePath_def locales_def sample_parse_def)
  from get_translations_corrupt
    [of \<open>''en''\<close> \<open>locales ''{"hello":''\<close> \<open>''{"hello":''\<close> sample_parse, OF s f p] de
  show ?thesis
    by simp
qed

text \<open>
  C7, as the code has it. Nothing is cached: each request for a supported code reads the
  file when it is handled, and when the file parses the answer is 200 with the content
  read then, whatever was served before.
\<close>

theorem get_translations_fresh:
  assumes "lang \<in> set supported" and "fs (filePath lang) = Some data" and "parse data = Some t"
  shows "serve parse (reqs @ [(fs, lang)]) =
           serve parse reqs @ [\<lparr>status = 200, body = Data t\<rparr>]"
  using assms supported_two_letters [OF assms(1)]
  by (simp add: serve_def get_translations_def)

text \<open>
  After \<open>en\<close> was served from one \<open>en.json\<close>, the request that finds
  another is answered with the other's content.
\<close>

theorem get_translations_fresh_witness:
  \<open>serve sample_parse
     ([(locales ''{"hello":"Hi"}'', ''en'')] @ [(locales ''{"hello":"Hello"}'', ''en'')]) =
   serve sample_parse [(locales ''{"hello":"Hi"}'', ''en'')] @
     [\<lparr>status = 200, body = Data [(''hello'', ''Hello'')]\<rparr>]\<close>
proof -
  have s: "''en'' \<in> set supported"
    by (simp add: supported_def)
  have f: \<open>locales ''{"hello":"Hello"}'' (filePath ''en'') = Some ''{"hello":"Hello"}''\<close>
    by (simp add: locales_def filePath_def)
  have p: \<open>sample_parse ''{"hello":"Hello"}'' = Some [(''hello'', ''Hello'')]\<close>
    by (simp add: sample_parse_def)
  from get_translations_fresh
    [of \<open>''en''\<close> \<open>locales ''{"hello":"Hello"}''\<close> \<open>''{"hello":"Hello"}''\<close> sample_parse
      \<open>[(''hello'', ''Hello'')]\<close> \<open>[(locales ''{"hello":"Hi"}'', ''en'')]\<close>, OF s f p]
  show ?thesis .
qed

text \<open>
  C7 as stated fails: \<open>en\<close> is served from \<open>en.json\<close>, the file is replaced, and the
  next request for \<open>en\<close> in the same process is answered with the new content, not
  with what was served first.
\<close>

theorem get_translations_cached_counterexample:
  \<open>serve sample_parse
     [(locales ''{"hello":"Hi"}'', ''en''), (locales ''{"hello":"Hello"}'', ''en'')] =
   [\<lparr>status = 200, body = Data [(''hello'', ''Hi'')]\<rparr>,
    \<lparr>status = 200, body = Data [(''hello'', ''Hello'')]\<rparr>] \<and>
   get_translations sample_parse (locales ''{"hello":"Hello"}'') ''en'' \<noteq>
   get_translations sample_parse (locales ''{"hello":"Hi"}'') ''en''\<close>
  by (simp add: serve_def get_translations_def sample_parse_def locales_def supported_def
      two_letters_def lower_letter_def filePath_def)

section \<open>Error responses\<close>

lemma catch_branch_fields:
  "\<exists>f. body (catch_branch mode x :: 'a response) = Failure f \<and> error f \<noteq> [] \<and>
     message_field f \<noteq> None \<and>
     details f = (if mode = Some ''development'' then Some (message x) else None)"
  by (simp add: catch_branch_def Let_def)

lemma findOrCreate_failure:
  assumes "body (fst (findOrCreate pg e d b)) = Failure f"
  shows "fst (findOrCreate pg e d b) = bad_request \<or>
         (\<exists>x. fst (findOrCreate pg e d b) = catch_branch (node_env e) x)"
  using assms
  by (auto simp add: findOrCreate_def findOrCreate_check_def findOrCreate_write_def bad_request_def
      split: sum.splits prod.splits if_splits)

lemma alike_retext: "alike (retext_result f r) r"
  by (simp add: alike_def retext_result_def retext_def split: sum.splits)

lemma alike_and_then:
  assumes "alike r1 r2" and "\<And>v. alike (k1 v) (k2 v)"
  shows "alike (and_then r1 k1) (and_then r2 k2)"
proof (cases r1)
  case (Inl x)
  with assms(1) obtain y where "r2 = Inl y" "code x = code y"
    by (auto simp add: alike_def split: sum.splits)
  with Inl show ?thesis
    by (simp add: alike_def and_then_def)
next
  case (Inr a)
  with assms(1) have "r2 = Inr a"
    by (auto simp add: alike_def split: sum.splits)
  with Inr assms(2) [of a] show ?thesis
    by (simp add: and_then_def)
qed

lemma alike_refl: "alike r r"
  by (simp add: alike_def split: sum.splits)

lemma bind_user_retext: "alike (bind_user (retext_driver f pg) b) (bind_user pg b)"
  unfolding bind_user_def
  by (intro alike_and_then alike_refl) (simp_all add: retext_driver_def alike_retext)

lemma select_user_retext:
  "alike (select_user (retext_driver f pg) (retext_env f e) d v) (select_user pg e d v)"
proof (cases "select_fault e")
  case (Some x)
  then show ?thesis
    by (simp add: select_user_def retext_env_def alike_def retext_def)
next
  case None
  show ?thesis
  proof (cases "table d")
    case no: None
    with None show ?thesis
      by (simp add: select_user_def retext_env_def alike_def)
  next
    case (Some rows)
    have "alike (and_then (int8_in (retext_driver f pg) v)
                   (\<lambda>k. Inr (filter (\<lambda>r. col_id r = k) rows)))
                (and_then (int8_in pg v) (\<lambda>k. Inr (filter (\<lambda>r. col_id r = k) rows)))"
      by (intro alike_and_then alike_refl) (simp add: retext_driver_def alike_retext)
    with None Some show ?thesis
      by (simp add: select_user_def retext_env_def)
  qed
qed

lemma check_cols_retext:
  "check_cols (retext_driver f pg) ps = map_option (retext f) (check_cols pg ps)"
  by (simp add: retext_driver_def)

lemma update_user_retext:
  "alike (update_user (retext_driver f pg) (retext_env f e) d b) (update_user pg e d b)"
proof (cases "write_fault e")
  case (Some x)
  then show ?thesis
    by (simp add: update_user_def retext_env_def alike_def retext_def)
next
  case None
  show ?thesis
  proof (cases "table d")
    case no: None
    with None show ?thesis
      by (simp add: update_user_def retext_env_def alike_def)
  next
    case (Some rows)
    with None show ?thesis
      apply (simp add: update_user_def retext_env_def)
      apply (rule alike_and_then [OF bind_user_retext])
      apply (simp add: alike_def retext_def Let_def check_cols_retext split: option.splits
          cong: if_cong)
      done
  qed
qed

lemma insert_user_retext:
  "alike (insert_user (retext_driver f pg) (retext_env f e) d b) (insert_user pg e d b)"
proof (cases "write_fault e")
  case (Some x)
  then show ?thesis
    by (simp add: insert_user_def retext_env_def alike_def retext_def)
next
  case None
  show ?thesis
  proof (cases "table d")
    case no: None
    with None show ?thesis
      by (simp add: insert_user_def retext_env_def alike_def)
  next
    case (Some rows)
    with None show ?thesis
      apply (simp add: insert_user_def retext_env_def)
      apply (rule alike_and_then [OF bind_user_retext])
      apply (simp add: alike_def retext_def check_cols_retext split: option.splits)
      done
  qed
qed

lemma catch_branch_code:
  "mode \<noteq> Some ''development'' \<Longrightarrow> code x = code y \<Longrightarrow>
     (catch_branch mode x :: 'a response) = catch_branch mode y"
  by (simp add: catch_branch_def)

lemma alike_cases:
  assumes "alike r1 r2"
  obtains (failed) x y where "r1 = Inl x" "r2 = Inl y" "code x = code y"
    | (returned) a where "r1 = Inr a" "r2 = Inr a"
  using assms by (auto simp add: alike_def split: sum.splits)

lemma findOrCreate_retext:
  assumes "node_env e \<noteq> Some ''development''"
  shows "findOrCreate (retext_driver f pg) (retext_env f e) d b = findOrCreate pg e d b"
proof -
  let ?pg = "retext_driver f pg" and ?e = "retext_env f e"
  have m: "node_env ?e = node_env e"
    by (simp add: retext_env_def)
  note cb = catch_branch_code [OF assms, where 'a = "user_row option"]
  have upd: "findOrCreate_write ?pg ?e d b Existing = findOrCreate_write pg e d b Existing"
    using update_user_retext [of f pg e d b]
  proof (cases rule: alike_cases)
    case (failed x y)
    with cb [of x y] show ?thesis
      by (simp add: findOrCreate_write_def m)
  next
    case (returned a)
    then show ?thesis
      by (simp add: findOrCreate_write_def)
  qed
  have ins: "findOrCreate_write ?pg ?e d b Absent = findOrCreate_write pg e d b Absent"
    using insert_user_retext [of f pg e d b]
  proof (cases rule: alike_cases)
    case (failed x y)
    with cb [of x y] show ?thesis
      by (simp add: findOrCreate_write_def m)
  next
    case (returned a)
    then show ?thesis
      by (simp add: findOrCreate_write_def)
  qed
  show ?thesis
  proof (cases "\<not> truthy (id_v b) \<or> \<not> truthy (first_name b)")
    case True
    then show ?thesis
      by (simp add: findOrCreate_def findOrCreate_check_def findOrCreate_write_def)
  next
    case False
    from select_user_retext [of f pg e d "id_v b"] show ?thesis
    proof (cases rule: alike_cases)
      case (failed x y)
      with False cb [of x y] show ?thesis
        by (simp add: findOrCreate_def findOrCreate_check_def findOrCreate_write_def m)
    next
      case (returned rows)
      with False have "findOrCreate_check ?pg ?e d b = findOrCreate_check pg e d b"
        by (simp add: findOrCreate_check_def)
      moreover from returned False
      have "findOrCreate_check pg e d b = Existing \<or> findOrCreate_check pg e d b = Absent"
        by (simp add: findOrCreate_check_def)
      ultimately show ?thesis
        using upd ins by (auto simp add: findOrCreate_def)
    qed
  qed
qed

text \<open>
  C10. Every answer of the handler to an error thrown while it runs (every failure other
  than the 400 of the validation) carries a category and a message; it carries the
  error's own text, as \<open>details\<close>, only when \<open>NODE_ENV\<close> is
  \<open>development\<close>, hence never in production; and in production the answer and the
  state left are the same whatever the texts of the errors the storage raises.
\<close>

theorem findOrCreate_error_details:
  assumes "findOrCreate pg e d b = (r, d')" and "body r = Failure f" and "status r \<noteq> 400"
  shows "error f \<noteq> [] \<and> message_field f \<noteq> None \<and>
         (details f \<noteq> None \<longrightarrow> node_env e = Some ''development'') \<and>
         (\<exists>x. r = catch_branch (node_env e) x \<and>
            details f = (if node_env e = Some ''development'' then Some (message x) else None)) \<and>
         (node_env e = Some ''production'' \<longrightarrow>
            (\<forall>g. findOrCreate (retext_driver g pg) (retext_env g e) d b = (r, d')))"
proof -
  from assms findOrCreate_failure [of pg e d b f]
  obtain x where x: "r = catch_branch (node_env e) x"
    by (auto simp add: bad_request_def)
  from catch_branch_fields [of "node_env e" x, where 'a = "user_row option"] x assms(2)
  have fields: "error f \<noteq> [] \<and> message_field f \<noteq> None \<and>
      details f = (if node_env e = Some ''development'' then Some (message x) else None)"
    by auto
  then have only: "details f \<noteq> None \<longrightarrow> node_env e = Some ''development''"
    by (simp split: if_splits)
  have "findOrCreate (retext_driver g pg) (retext_env g e) d b = (r, d')"
    if "node_env e = Some ''production''" for g
    using that assms(1) findOrCreate_retext [of e g pg d b] by simp
  with x fields only show ?thesis by blast
qed

text \<open>
  In production a refused connection is answered 503 with category and message and no
  details, and the answer is the same when the error carries another text.
\<close>

theorem findOrCreate_error_details_witness:
  "findOrCreate sample_pg (down ''production'' (refused ''connect ECONNREFUSED 10.0.0.5:5432''))
     empty_db (telegram_user 42 ''Ana'') =
     (\<lparr>status = 503,
       body = Failure \<lparr>error = ''Database connection failed'',
                       message_field = Some ''Unable to connect to the database'',
                       details = None, supportedLanguages = None\<rparr>\<rparr>, empty_db) \<and>
   findOrCreate (retext_driver (\<lambda>x. ''connect ECONNREFUSED 10.0.0.9:5432'') sample_pg)
     (down ''production'' (refused ''connect ECONNREFUSED 10.0.0.9:5432''))
     empty_db (telegram_user 42 ''Ana'') =
     (\<lparr>status = 503,
       body = Failure \<lparr>error = ''Database connection failed'',
                       message_field = Some ''Unable to connect to the database'',
                       details = None, supportedLanguages = None\<rparr>\<rparr>, empty_db)"
proof -
  let ?e = "down ''production'' (refused ''connect ECONNREFUSED 10.0.0.5:5432'')"
  let ?g = "\<lambda>x :: js_error. ''connect ECONNREFUSED 10.0.0.9:5432''"
  let ?r = "\<lparr>status = 503,
       body = Failure \<lparr>error = ''Database connection failed'',
                       message_field = Some ''Unable to connect to the database'',
                       details = None, supportedLanguages = None\<rparr>\<rparr> :: user_row option response"
  have run: "findOrCreate sample_pg ?e empty_db (telegram_user 42 ''Ana'') = (?r, empty_db)"
    by (simp add: findOrCreate_def findOrCreate_check_def findOrCreate_write_def select_user_def
        down_def telegram_user_def catch_branch_def refused_def)
  have b: "body ?r = Failure \<lparr>error = ''Database connection failed'',
                       message_field = Some ''Unable to connect to the database'',
                       details = None, supportedLanguages = None\<rparr>"
    by simp
  have s: "status ?r \<noteq> 400"
    by simp
  have p: "node_env ?e = Some ''production''"
    by (simp add: down_def)
  have e: "retext_env ?g ?e =
      down ''production'' (refused ''connect ECONNREFUSED 10.0.0.9:5432'')"
    by (simp add: retext_env_def retext_def down_def refused_def)
  from findOrCreate_error_details [OF run b s] p
  have "findOrCreate (retext_driver ?g sample_pg) (retext_env ?g ?e) empty_db
      (telegram_user 42 ''Ana'') = (?r, empty_db)"
    by blast
  with run e show ?thesis
    by simp
qed

section \<open>The upsert\<close>

lemma bind_user_fields:
  assumes "bind_user pg b = Inr ps"
  shows "int8_in pg (id_v b) = Inr (p_id ps)"
    and "bool_in pg (is_bot b) = Inr (p_is_bot ps)"
    and "text_in pg (first_name b) = Inr (p_first_name ps)"
    and "text_in pg (last_name b) = Inr (p_last_name ps)"
    and "text_in pg (username b) = Inr (p_username ps)"
    and "text_in pg (language_code b) = Inr (p_language_code ps)"
    and "bool_in pg (is_premium b) = Inr (p_is_premium ps)"
    and "bool_in pg (added_to_attachment_menu b) = Inr (p_added_to_attachment_menu ps)"
    and "bool_in pg (can_join_groups b) = Inr (p_can_join_groups ps)"
    and "bool_in pg (can_read_all_group_messages b) = Inr (p_can_read_all_group_messages ps)"
    and "bool_in pg (supports_inline_queries b) = Inr (p_supports_inline_queries ps)"
  using assms
  by (auto simp add: bind_user_def and_then_def split: sum.splits)

lemma list_ex_filter: "list_ex P xs = (filter P xs \<noteq> [])"
  by (induction xs) auto

lemma findOrCreate_insert:
  assumes "truthy (id_v b)" and "truthy (first_name b)" and "healthy e"
    and "table d = Some rows" and "bind_user pg b = Inr ps" and "check_cols pg ps = None"
    and "filter (\<lambda>r. col_id r = p_id ps) rows = []"
  shows "findOrCreate pg e d b =
           (\<lparr>status = 201, body = Data (Some (new_row ps (now e)))\<rparr>,
            d\<lparr>table := Some (rows @ [new_row ps (now e)])\<rparr>)"
  using assms bind_user_fields(1) [OF assms(5)]
  by (simp add: findOrCreate_def findOrCreate_check_def findOrCreate_write_def select_user_def
      insert_user_def healthy_def and_then_def list_ex_filter first_row_def)

lemma filter_map_same_id:
  assumes "\<And>r. col_id (g r) = col_id r"
  shows "filter (\<lambda>r. col_id r = k) (map (\<lambda>r. if col_id r = k then g r else r) rows) =
         map g (filter (\<lambda>r. col_id r = k) rows)"
  using assms by (induction rows) auto

lemma col_id_set_cols: "col_id (set_cols ps t r) = col_id r"
  by (simp add: set_cols_def)

lemma findOrCreate_update:
  assumes "truthy (id_v b)" and "truthy (first_name b)" and "healthy e"
    and "table d = Some rows" and "bind_user pg b = Inr ps" and "check_cols pg ps = None"
    and "filter (\<lambda>r. col_id r = p_id ps) rows = r0 # rest"
  shows "findOrCreate pg e d b =
           (\<lparr>status = 200, body = Data (Some (set_cols ps (now e) r0))\<rparr>,
            d\<lparr>table := Some (map (\<lambda>r. if col_id r = p_id ps then set_cols ps (now e) r else r)
                                rows)\<rparr>)"
  using assms bind_user_fields(1) [OF assms(5)]
  by (simp add: findOrCreate_def findOrCreate_check_def findOrCreate_write_def select_user_def
      update_user_def healthy_def and_then_def list_ex_filter first_row_def
      filter_map_same_id [of "set_cols ps (now e)", OF col_id_set_cols])

lemma map_if_absent:
  "filter (\<lambda>r. col_id r = k) rows = [] \<Longrightarrow>
     map (\<lambda>r. if col_id r = k then g r else r) rows = rows"
  by (induction rows) (auto split: if_splits)

lemma spec_valid_truthy:
  "spec_valid_payload b \<Longrightarrow> truthy (id_v b) \<and> truthy (first_name b)"
  by (auto simp add: spec_valid_payload_def split: jsval.splits)

lemma set_cols_new_row: "set_cols ps t (new_row ps t0) = (new_row ps t0)\<lparr>col_updated_at := t\<rparr>"
  by (simp add: set_cols_def new_row_def)

lemma set_cols_twice: "set_cols ps t (set_cols ps t0 r) = (set_cols ps t0 r)\<lparr>col_updated_at := t\<rparr>"
  by (simp add: set_cols_def)

lemma accepted_bind:
  "accepted pg b \<Longrightarrow> \<exists>ps. bind_user pg b = Inr ps \<and> check_cols pg ps = None"
  by (simp add: accepted_def split: sum.splits)

lemma new_row_fields:
  "col_id (new_row ps t) = p_id ps" "col_updated_at (new_row ps t) = t"
  "col_created_at (new_row ps t) = t" "col_preferred_language (new_row ps t) = Some ''en''"
  by (simp_all add: new_row_def)

lemma set_cols_fields:
  "col_updated_at (set_cols ps t r) = t"
  "col_created_at (set_cols ps t r) = col_created_at r"
  "col_preferred_language (set_cols ps t r) = col_preferred_language r"
  by (simp_all add: set_cols_def)

text \<open>Two calls in sequence with a payload the database takes.\<close>

lemma findOrCreate_twice_accepted:
  assumes valid: "spec_valid_payload P"
    and storage: "healthy e1" "healthy e2" "table d \<noteq> None" "accepted pg P"
    and clock: "now e1 \<le> now e2"
    and first: "findOrCreate pg e1 d P = (r1, d1)"
    and second: "findOrCreate pg e2 d1 P = (r2, d2)"
  shows "\<exists>u1 u2 rows1.
           (status r1 = 200 \<or> status r1 = 201) \<and> body r1 = Data (Some u1) \<and>
           status r2 = 200 \<and> body r2 = Data (Some u2) \<and>
           u2 = u1\<lparr>col_updated_at := now e2\<rparr> \<and>
           col_updated_at u1 = now e1 \<and>
           col_updated_at u1 \<le> col_updated_at u2 \<and>
           table d1 = Some rows1 \<and>
           table d2 = Some (map (\<lambda>r. if col_id r = col_id u1
                                       then r\<lparr>col_updated_at := now e2\<rparr> else r) rows1)"
proof -
  from valid have t: "truthy (id_v P)" "truthy (first_name P)"
    using spec_valid_truthy by blast+
  from storage(4) obtain ps where ps: "bind_user pg P = Inr ps" "check_cols pg ps = None"
    using accepted_bind by blast
  from storage(3) obtain rows where rows: "table d = Some rows"
    by blast
  let ?k = "p_id ps"
  let ?f1 = "\<lambda>r. if col_id r = ?k then set_cols ps (now e1) r else r"
  let ?f2 = "\<lambda>r. if col_id r = ?k then set_cols ps (now e2) r else r"
  let ?g = "\<lambda>r. if col_id r = ?k then r\<lparr>col_updated_at := now e2\<rparr> else r"
  have goal: ?thesis
    if r1: "r1 = \<lparr>status = s, body = Data (Some u)\<rparr>" and s: "s = 200 \<or> s = 201"
      and r2: "r2 = \<lparr>status = 200, body = Data (Some (u\<lparr>col_updated_at := now e2\<rparr>))\<rparr>"
      and u: "col_updated_at u = now e1" "col_id u = ?k"
      and t1: "table d1 = Some rows1" and t2: "table d2 = Some (map ?g rows1)"
    for s u rows1
  proof (rule exI [of _ u], rule exI [of _ "u\<lparr>col_updated_at := now e2\<rparr>"],
      rule exI [of _ rows1], intro conjI)
    show "status r1 = 200 \<or> status r1 = 201" using r1 s by simp
    show "body r1 = Data (Some u)" using r1 by simp
    show "status r2 = 200" using r2 by simp
    show "body r2 = Data (Some (u\<lparr>col_updated_at := now e2\<rparr>))" using r2 by simp
    show "u\<lparr>col_updated_at := now e2\<rparr> = u\<lparr>col_updated_at := now e2\<rparr>" by simp
    show "col_updated_at u = now e1" by (rule u(1))
    show "col_updated_at u \<le> col_updated_at (u\<lparr>col_updated_at := now e2\<rparr>)"
      using u(1) clock by simp
    show "table d1 = Some rows1" by (rule t1)
    show "table d2 = Some (map (\<lambda>r. if col_id r = col_id u
        then r\<lparr>col_updated_at := now e2\<rparr> else r) rows1)"
      unfolding u(2) by (rule t2)
  qed
  show ?thesis
  proof (cases "filter (\<lambda>r. col_id r = ?k) rows")
    case Nil
    let ?u = "new_row ps (now e1)"
    from findOrCreate_insert [OF t storage(1) rows ps Nil] first
    have 1: "r1 = \<lparr>status = 201, body = Data (Some ?u)\<rparr>"
      and d1: "d1 = d\<lparr>table := Some (rows @ [?u])\<rparr>"
      by simp_all
    have tab1: "table d1 = Some (rows @ [?u])"
      by (simp add: d1)
    have sel: "filter (\<lambda>r. col_id r = ?k) (rows @ [?u]) = ?u # []"
      using Nil by (simp add: new_row_fields)
    from findOrCreate_update [OF t storage(2) tab1 ps sel] second
    have 2: "r2 = \<lparr>status = 200, body = Data (Some (set_cols ps (now e2) ?u))\<rparr>"
      and d2: "d2 = d1\<lparr>table := Some (map ?f2 (rows @ [?u]))\<rparr>"
      by simp_all
    have same: "map ?f2 (rows @ [?u]) = map ?g (rows @ [?u])"
      by (simp add: map_if_absent [OF Nil] set_cols_new_row new_row_fields)
    have tab2: "table d2 = Some (map ?g (rows @ [?u]))"
      unfolding d2 same by simp
    show ?thesis
      by (rule goal [OF 1 _ _ _ _ tab1 tab2])
        (simp_all add: 2 set_cols_new_row new_row_fields)
  next
    case (Cons r0 rest)
    let ?u = "set_cols ps (now e1) r0"
    from findOrCreate_update [OF t storage(1) rows ps Cons] first
    have 1: "r1 = \<lparr>status = 200, body = Data (Some ?u)\<rparr>"
      and d1: "d1 = d\<lparr>table := Some (map ?f1 rows)\<rparr>"
      by simp_all
    have tab1: "table d1 = Some (map ?f1 rows)"
      by (simp add: d1)
    have sel: "filter (\<lambda>r. col_id r = ?k) (map ?f1 rows) = ?u # map (set_cols ps (now e1)) rest"
      using Cons by (simp add: filter_map_same_id [of "set_cols ps (now e1)", OF col_id_set_cols])
    from findOrCreate_update [OF t storage(2) tab1 ps sel] second
    have 2: "r2 = \<lparr>status = 200, body = Data (Some (set_cols ps (now e2) ?u))\<rparr>"
      and d2: "d2 = d1\<lparr>table := Some (map ?f2 (map ?f1 rows))\<rparr>"
      by simp_all
    have same: "map ?f2 (map ?f1 rows) = map ?g (map ?f1 rows)"
      by (induction rows) (simp_all add: set_cols_twice col_id_set_cols)
    have tab2: "table d2 = Some (map ?g (map ?f1 rows))"
      unfolding d2 same by simp
    from Cons have "r0 \<in> set (filter (\<lambda>r. col_id r = ?k) rows)"
      by simp
    then have k: "col_id ?u = ?k"
      by (simp add: col_id_set_cols)
    show ?thesis
      by (rule goal [OF 1 _ _ _ k tab1 tab2])
        (simp_all add: 2 set_cols_twice set_cols_fields)
  qed
qed

lemma catch_branch_status:
  "status (catch_branch mode x :: 'a response) = status (catch_branch mode' x :: 'a response) \<and>
   (status (catch_branch mode x :: 'a response) = 500 \<or>
    status (catch_branch mode x :: 'a response) = 503)"
  by (simp add: catch_branch_def Let_def)

lemma not_accepted_cases:
  assumes "\<not> accepted pg b"
  obtains (unbound) x where "bind_user pg b = Inl x"
    | (violating) ps x where "bind_user pg b = Inr ps" "check_cols pg ps = Some x"
  using assms by (auto simp add: accepted_def split: sum.splits)

text \<open>
  A payload the database refuses: the call throws the database's error, the same one
  whenever it is made on the same state, and writes nothing.
\<close>

lemma findOrCreate_refused:
  assumes passes: "truthy (id_v b)" "truthy (first_name b)"
    and tab: "table d = Some rows"
    and refused: "\<not> accepted pg b"
  shows "\<exists>x. \<forall>e. healthy e \<longrightarrow> findOrCreate pg e d b = (catch_branch (node_env e) x, d)"
proof (cases "int8_in pg (id_v b)")
  case (Inl x)
  with passes tab have "findOrCreate pg e d b = (catch_branch (node_env e) x, d)"
    if "healthy e" for e
    using that
    by (simp add: findOrCreate_def findOrCreate_check_def findOrCreate_write_def select_user_def
        healthy_def and_then_def)
  then show ?thesis by blast
next
  case (Inr k)
  from refused show ?thesis
  proof (cases rule: not_accepted_cases)
    case (unbound x)
    with passes tab Inr have "findOrCreate pg e d b = (catch_branch (node_env e) x, d)"
      if "healthy e" for e
      using that
      by (simp add: findOrCreate_def findOrCreate_check_def findOrCreate_write_def
          select_user_def update_user_def insert_user_def healthy_def and_then_def)
    then show ?thesis by blast
  next
    case (violating ps x)
    from bind_user_fields(1) [OF violating(1)] Inr have k: "p_id ps = k"
      by simp
    with passes tab Inr violating
    have "findOrCreate pg e d b = (catch_branch (node_env e) x, d)"
      if "healthy e" for e
      using that
      by (simp add: findOrCreate_def findOrCreate_check_def findOrCreate_write_def
          select_user_def update_user_def insert_user_def healthy_def and_then_def
          list_ex_filter)
    then show ?thesis by blast
  qed
qed

text \<open>
  C1, as the code has it. Take a valid payload, both queries of both calls answered, and
  a database clock that does not run backwards. When the database takes the payload's
  fields, two calls in sequence each return the stored record; the second record is the
  first with \<open>updated_at\<close> set to the second call's time, which is not before the
  first's; and the table after the second call is the table after the first with that
  one timestamp changed. When the database refuses a field, neither call returns a
  record: both are answered with the same failure (500 or 503, the same category and
  message) and the table stays as it was before the first call.
\<close>

theorem findOrCreate_idempotent:
  assumes valid: "spec_valid_payload P"
    and storage: "healthy e1" "healthy e2" "table d \<noteq> None"
    and clock: "now e1 \<le> now e2"
    and first: "findOrCreate pg e1 d P = (r1, d1)"
    and second: "findOrCreate pg e2 d1 P = (r2, d2)"
  shows "(accepted pg P \<longrightarrow>
            (\<exists>u1 u2 rows1.
               (status r1 = 200 \<or> status r1 = 201) \<and> body r1 = Data (Some u1) \<and>
               status r2 = 200 \<and> body r2 = Data (Some u2) \<and>
               u2 = u1\<lparr>col_updated_at := now e2\<rparr> \<and>
               col_updated_at u1 = now e1 \<and>
               col_updated_at u1 \<le> col_updated_at u2 \<and>
               table d1 = Some rows1 \<and>
               table d2 = Some (map (\<lambda>r. if col_id r = col_id u1
                                           then r\<lparr>col_updated_at := now e2\<rparr> else r) rows1))) \<and>
         (\<not> accepted pg P \<longrightarrow>
            (\<exists>f1 f2. body r1 = Failure f1 \<and> body r2 = Failure f2 \<and>
               error f2 = error f1 \<and> message_field f2 = message_field f1) \<and>
            status r2 = status r1 \<and> (status r1 = 500 \<or> status r1 = 503) \<and>
            (node_env e2 = node_env e1 \<longrightarrow> r2 = r1) \<and>
            d1 = d \<and> d2 = d)"
proof (intro conjI impI)
  assume "accepted pg P"
  from findOrCreate_twice_accepted [OF valid storage this clock first second]
  show "\<exists>u1 u2 rows1.
      (status r1 = 200 \<or> status r1 = 201) \<and> body r1 = Data (Some u1) \<and>
      status r2 = 200 \<and> body r2 = Data (Some u2) \<and>
      u2 = u1\<lparr>col_updated_at := now e2\<rparr> \<and>
      col_updated_at u1 = now e1 \<and>
      col_updated_at u1 \<le> col_updated_at u2 \<and>
      table d1 = Some rows1 \<and>
      table d2 = Some (map (\<lambda>r. if col_id r = col_id u1
                                  then r\<lparr>col_updated_at := now e2\<rparr> else r) rows1)" .
next
  assume refused: "\<not> accepted pg P"
  from valid have t: "truthy (id_v P)" "truthy (first_name P)"
    using spec_valid_truthy by blast+
  from storage(3) obtain rows where rows: "table d = Some rows"
    by blast
  from findOrCreate_refused [OF t rows refused]
  obtain x where x: "\<And>e. healthy e \<Longrightarrow> findOrCreate pg e d P = (catch_branch (node_env e) x, d)"
    by blast
  from x [OF storage(1)] first
  have 1: "r1 = catch_branch (node_env e1) x" and d1: "d1 = d"
    by simp_all
  from x [OF storage(2)] second d1
  have 2: "r2 = catch_branch (node_env e2) x" and d2: "d2 = d"
    by simp_all
  show "d1 = d" by (rule d1)
  show "d2 = d" by (rule d2)
  show "status r2 = status r1"
    unfolding 1 2 using catch_branch_status [of "node_env e2" x "node_env e1"] by blast
  show "status r1 = 500 \<or> status r1 = 503"
    unfolding 1 using catch_branch_status [of "node_env e1" x "node_env e1"] by blast
  show "r2 = r1" if "node_env e2 = node_env e1"
    unfolding 1 2 using that by simp
  show "\<exists>f1 f2. body r1 = Failure f1 \<and> body r2 = Failure f2 \<and>
      error f2 = error f1 \<and> message_field f2 = message_field f1"
    unfolding 1 2 by (simp add: catch_branch_def Let_def)
qed

lemma sample_refused: "\<not> accepted sample_pg (telegram_user (2 ^ 63) ''Ana'')"
  by (simp add: accepted_def bind_user_def sample_pg_def telegram_user_def and_then_def)

text \<open>
  The body \<open>{id: 42, is_bot: false, first_name: "Ana", language_code: "en"}\<close> sent
  at time 7 and again at time 9 to an empty table returns the record twice; the same
  body with the id \<open>9223372036854775808\<close> leaves the table empty.
\<close>

theorem findOrCreate_idempotent_witness:
  "spec_valid_payload (telegram_user 42 ''Ana'') \<and> healthy (quiet 7) \<and> healthy (quiet 9) \<and>
   accepted sample_pg (telegram_user 42 ''Ana'') \<and> now (quiet 7) \<le> now (quiet 9) \<and>
   (\<exists>u1 u2.
      body (fst (findOrCreate sample_pg (quiet 7) empty_db (telegram_user 42 ''Ana''))) =
        Data (Some u1) \<and>
      body (fst (findOrCreate sample_pg (quiet 9)
                  (snd (findOrCreate sample_pg (quiet 7) empty_db (telegram_user 42 ''Ana'')))
                  (telegram_user 42 ''Ana''))) = Data (Some u2) \<and>
      u2 = u1\<lparr>col_updated_at := 9\<rparr> \<and> col_updated_at u1 = 7) \<and>
   spec_valid_payload (telegram_user (2 ^ 63) ''Ana'') \<and>
   \<not> accepted sample_pg (telegram_user (2 ^ 63) ''Ana'') \<and>
   snd (findOrCreate sample_pg (quiet 9)
         (snd (findOrCreate sample_pg (quiet 7) empty_db (telegram_user (2 ^ 63) ''Ana'')))
         (telegram_user (2 ^ 63) ''Ana'')) = empty_db"
proof -
  let ?P = "telegram_user 42 ''Ana''"
  let ?c1 = "findOrCreate sample_pg (quiet 7) empty_db ?P"
  let ?c2 = "findOrCreate sample_pg (quiet 9) (snd ?c1) ?P"
  let ?Q = "telegram_user (2 ^ 63) ''Ana''"
  let ?q1 = "findOrCreate sample_pg (quiet 7) empty_db ?Q"
  let ?q2 = "findOrCreate sample_pg (quiet 9) (snd ?q1) ?Q"
  have tab: "table empty_db \<noteq> None"
    by (simp add: empty_db_def)
  have clock: "now (quiet 7) \<le> now (quiet 9)"
    by (simp add: quiet_def)
  have n: "now (quiet 7) = 7" "now (quiet 9) = 9"
    by (simp_all add: quiet_def)
  have valid: "spec_valid_payload ?Q"
    by (simp add: spec_valid_payload_def telegram_user_def)
  have 1: "?c1 = (fst ?c1, snd ?c1)" and 2: "?c2 = (fst ?c2, snd ?c2)"
    and 3: "?q1 = (fst ?q1, snd ?q1)" and 4: "?q2 = (fst ?q2, snd ?q2)"
    by simp_all
  from findOrCreate_idempotent
    [OF sample_valid quiet_healthy quiet_healthy tab clock 1 2] sample_accepted
  have taken: "\<exists>u1 u2. body (fst ?c1) = Data (Some u1) \<and> body (fst ?c2) = Data (Some u2) \<and>
      u2 = u1\<lparr>col_updated_at := 9\<rparr> \<and> col_updated_at u1 = 7"
    unfolding n by blast
  from findOrCreate_idempotent
    [OF valid quiet_healthy quiet_healthy tab clock 3 4] sample_refused
  have refused: "snd ?q2 = empty_db"
    by blast
  from taken refused valid sample_valid quiet_healthy sample_accepted sample_refused clock
  show ?thesis
    by blast
qed

text \<open>
  C1 as stated fails: the body \<open>{id: 9223372036854775808, is_bot: false, first_name:
  "Ana", language_code: "en"}\<close> is valid (its id is a positive integer, its first
  name is not empty), the id is out of the range of \<open>bigint\<close>, and both calls are
  answered 500 with no record.
\<close>

theorem findOrCreate_idempotent_counterexample:
  "spec_valid_payload (telegram_user (2 ^ 63) ''Ana'') \<and> healthy (quiet 7) \<and> healthy (quiet 9) \<and>
   findOrCreate sample_pg (quiet 7) empty_db (telegram_user (2 ^ 63) ''Ana'') =
     (\<lparr>status = 500,
       body = Failure \<lparr>error = ''Internal server error'',
                       message_field = Some ''Failed to process user data'',
                       details = None, supportedLanguages = None\<rparr>\<rparr>, empty_db) \<and>
   findOrCreate sample_pg (quiet 9) empty_db (telegram_user (2 ^ 63) ''Ana'') =
     (\<lparr>status = 500,
       body = Failure \<lparr>error = ''Internal server error'',
                       message_field = Some ''Failed to process user data'',
                       details = None, supportedLanguages = None\<rparr>\<rparr>, empty_db)"
  by (simp add: spec_valid_payload_def telegram_user_def healthy_def quiet_def findOrCreate_def
      findOrCreate_check_def findOrCreate_write_def select_user_def empty_db_def and_then_def
      sample_pg_def catch_branch_def)












section \<open>Overlapping calls\<close>

text \<open>
  C2 does not hold of the code. Two calls with the same body reach an empty table and
  overlap: both run their \<open>SELECT\<close> and find no row; the first \<open>INSERT\<close> stores
  the row and is answered 201; the second \<open>INSERT\<close> violates the primary key and is
  answered 500. One row is stored, and one of the two calls has failed.
\<close>

theorem overlapped_duplicate_fails:
  "overlapped sample_pg (quiet 7) (quiet 8) empty_db (telegram_user 42 ''Ana'') =
     (\<lparr>status = 201, body = Data (Some (stored_42 7))\<rparr>,
      \<lparr>status = 500,
       body = Failure \<lparr>error = ''Internal server error'',
                       message_field = Some ''Failed to process user data'',
                       details = None, supportedLanguages = None\<rparr>\<rparr>,
      \<lparr>table = Some [stored_42 7]\<rparr>)"
proof -
  let ?b = "telegram_user 42 ''Ana''"
  have check: "findOrCreate_check sample_pg (quiet t) empty_db ?b = Absent" for t
    by (simp add: findOrCreate_check_def select_user_def quiet_def empty_db_def and_then_def
        sample_key) (simp add: telegram_user_def)
  have row: "new_row \<lparr>p_id = 42, p_is_bot = Some False, p_first_name = Some ''Ana'',
      p_last_name = None, p_username = None, p_language_code = Some ''en'',
      p_is_premium = None, p_added_to_attachment_menu = None, p_can_join_groups = None,
      p_can_read_all_group_messages = None, p_supports_inline_queries = None\<rparr> t = stored_42 t"
    for t
    by (simp add: new_row_def stored_42_def)
  have first: "findOrCreate_write sample_pg (quiet 7) empty_db ?b Absent =
      (\<lparr>status = 201, body = Data (Some (stored_42 7))\<rparr>, \<lparr>table = Some [stored_42 7]\<rparr>)"
    by (simp add: findOrCreate_write_def insert_user_def quiet_def empty_db_def and_then_def
        sample_bind) (simp add: sample_pg_def row first_row_def)
  have second: "findOrCreate_write sample_pg (quiet 8) \<lparr>table = Some [stored_42 7]\<rparr> ?b Absent =
      (\<lparr>status = 500,
        body = Failure \<lparr>error = ''Internal server error'',
                        message_field = Some ''Failed to process user data'',
                        details = None, supportedLanguages = None\<rparr>\<rparr>,
       \<lparr>table = Some [stored_42 7]\<rparr>)"
    by (simp add: findOrCreate_write_def insert_user_def quiet_def and_then_def
        sample_bind)
      (simp add: sample_pg_def stored_42_def catch_branch_def unique_violation_def)
  show ?thesis
    by (simp add: overlapped_def check first second)
qed

section \<open>The bot\<close>

text \<open>
  C8, as the code has it. When \<open>findOrCreateUser\<close> or \<open>getTranslations\<close> fails in
  the \<open>/start\<close> handler and Telegram delivers the reply, the handler sends one
  message and rejects with nothing. The message is the \<open>error_generic\<close> text of the
  English bundle when the backend serves that bundle to \<open>handleBotError\<close> and the text
  is not empty, and the text built into the bot otherwise; it does not depend on the
  error.
\<close>

theorem bot_start_degrades:
  assumes failure:
      "(\<exists>x. user_result gw = Inl x) \<or>
       (\<exists>pref x. user_result gw = Inr pref \<and>
          bundle_result gw (case pref of None \<Rightarrow> ''en''
                            | Some s \<Rightarrow> if s \<noteq> [] then s else ''en'') = Inl x)"
    and delivered: "\<forall>text. tg (Some text) = None"
  shows "bot_start tg gw =
           \<lparr>sent = [case en_result gw of
                      Inl x \<Rightarrow> fallback_text
                    | Inr t \<Rightarrow>
                        (case t ''error_generic'' of
                           None \<Rightarrow> fallback_text
                         | Some s \<Rightarrow> if s \<noteq> [] then s else fallback_text)],
            raised = None\<rparr>"
proof -
  from delivered have "handleBotError tg gw =
      \<lparr>sent = [case en_result gw of
                 Inl x \<Rightarrow> fallback_text
               | Inr t \<Rightarrow>
                   (case t ''error_generic'' of
                      None \<Rightarrow> fallback_text
                    | Some s \<Rightarrow> if s \<noteq> [] then s else fallback_text)],
       raised = None\<rparr>"
    by (simp add: handleBotError_def Let_def split: sum.splits option.splits)
  moreover from failure have "bot_start tg gw = handleBotError tg gw"
    by (auto simp add: bot_start_def Let_def split: sum.splits option.splits)
  ultimately show ?thesis by simp
qed

text \<open>With the backend unreachable the user receives the built-in text.\<close>

theorem bot_start_degrades_witness:
  "(\<exists>x. user_result gateway_down = Inl x) \<and>
   bot_start telegram_up gateway_down =
     \<lparr>sent = [''An error occurred. Please try again later.''], raised = None\<rparr>"
proof -
  have f: "\<exists>x. user_result gateway_down = Inl x"
    by (simp add: gateway_down_def)
  then have failure: "(\<exists>x. user_result gateway_down = Inl x) \<or>
       (\<exists>pref x. user_result gateway_down = Inr pref \<and>
          bundle_result gateway_down (case pref of None \<Rightarrow> ''en''
                            | Some s \<Rightarrow> if s \<noteq> [] then s else ''en'') = Inl x)"
    by (rule disjI1)
  have delivered: "\<forall>text. telegram_up (Some text) = None"
    by (simp add: telegram_up_def)
  from bot_start_degrades [OF failure delivered] f show ?thesis
    by (simp add: gateway_down_def fallback_text_def)
qed

text \<open>
  C8 as stated fails: the user endpoint answers 500, the translations are served, and the
  user receives the backend's \<open>error_generic\<close> text, not the text built into the bot.
\<close>

theorem bot_start_fallback_counterexample:
  "(\<exists>x. user_result users_down = Inl x) \<and>
   bot_start telegram_up users_down =
     \<lparr>sent = [''Something went wrong. Please try again.''], raised = None\<rparr> \<and>
   ''Something went wrong. Please try again.'' \<noteq> fallback_text"
  by (simp add: bot_start_def handleBotError_def users_down_def telegram_up_def en_bundle_def
      fallback_text_def)

end
